theory Spec2Isabelle
  imports Complex_Main "HOL-Library.Sublist"
begin

section \<open>Display technology schema of \<^verbatim>\<open>build_schema.py\<close>\<close>

text \<open>
  \<^verbatim>\<open>build_schema()\<close> reads two tables, left-joins the spectral (SPD) results onto the
  television table on \<^verbatim>\<open>product_id\<close>, and derives the schema columns row by row. The
  tables are modelled as lists of records, a column operation as a \<open>map\<close> over the rows,
  and an exception as a value of a sum type. Reading and writing the files and the
  printed summary are not modelled.
\<close>

subsection \<open>Cell values\<close>

text \<open>
  A cell of a data frame holds a Python value. The derivations meet three kinds: a
  string, a float (finite, infinite, or NaN, which is what pandas stores for an empty
  CSV cell and for the columns of a left join that found no partner), and \<^verbatim>\<open>None\<close>
  (returned by the row functions). An integer column is a float cell with an integral
  value; rounding of binary floating point is outside the model.
\<close>

datatype pyfloat = FNaN | PosInf | NegInf | Fin real

datatype cell = PyNone | Flt pyfloat | Str string

abbreviation NaN :: cell where
  "NaN \<equiv> Flt FNaN"

datatype error = ValueError | TypeError | OverflowError

text \<open>\<^verbatim>\<open>pd.isna\<close>: both \<^verbatim>\<open>None\<close> and NaN count as null.\<close>

definition isna :: "cell \<Rightarrow> bool" where
  "isna c = (c = PyNone \<or> c = NaN)"

text \<open>Truth value of a Python object: NaN and the infinities are true, only \<open>0.0\<close> is false.\<close>

definition py_truthy :: "cell \<Rightarrow> bool" where
  "py_truthy c = (case c of PyNone \<Rightarrow> False | Flt f \<Rightarrow> f \<noteq> Fin 0 | Str s \<Rightarrow> s \<noteq> [])"

text \<open>
  \<^verbatim>\<open>str(x).startswith(pre)\<close> for a prefix \<open>pre\<close> that starts with a capital letter other
  than \<open>N\<close>: \<^verbatim>\<open>str\<close> of \<^verbatim>\<open>None\<close> is \<open>None\<close>, and \<^verbatim>\<open>str\<close> of a float starts with a
  digit, a sign, \<open>n\<close> (\<open>nan\<close>) or \<open>i\<close> (\<open>inf\<close>), so only a string can match.
\<close>

definition str_startswith :: "string \<Rightarrow> cell \<Rightarrow> bool" where
  "str_startswith pre c = (case c of Str s \<Rightarrow> prefix pre s | _ \<Rightarrow> False)"

text \<open>\<^verbatim>\<open>sub in name\<close> on strings: \<open>sub\<close> occurs as a contiguous piece of \<open>name\<close>.\<close>

fun contains :: "string \<Rightarrow> string \<Rightarrow> bool" where
  "contains sub [] = (sub = [])"
| "contains sub (c # cs) = (prefix sub (c # cs) \<or> contains sub cs)"

text \<open>
  \<^verbatim>\<open>float(x)\<close>. Python's parser of numerals is a parameter \<open>parse\<close> (\<open>None\<close> where
  \<^verbatim>\<open>float\<close> raises \<^verbatim>\<open>ValueError\<close>); a float is returned as it is, NaN included, and
  \<^verbatim>\<open>None\<close> raises \<^verbatim>\<open>TypeError\<close>.
\<close>

definition py_float :: "(string \<Rightarrow> pyfloat option) \<Rightarrow> cell \<Rightarrow> error + pyfloat" where
  "py_float parse x =
     (case x of
        PyNone \<Rightarrow> Inl TypeError
      | Flt f \<Rightarrow> Inr f
      | Str s \<Rightarrow> (case parse s of None \<Rightarrow> Inl ValueError | Some f \<Rightarrow> Inr f))"

text \<open>\<^verbatim>\<open>f < r\<close> for a float \<open>f\<close> and a finite \<open>r\<close>: every comparison with NaN is false.\<close>

definition py_less :: "pyfloat \<Rightarrow> real \<Rightarrow> bool" where
  "py_less f r = (case f of FNaN \<Rightarrow> False | PosInf \<Rightarrow> False | NegInf \<Rightarrow> True | Fin x \<Rightarrow> x < r)"

subsection \<open>The two input tables and the merged frame\<close>

text \<open>
  Of the television table only the columns the derivations read are kept. The scraper
  always writes \<^verbatim>\<open>fullname\<close> and \<^verbatim>\<open>brand\<close> (required keys of its product record), so
  they are strings; the other columns may hold anything.
\<close>

record tv_row =
  product_id :: int
  fullname :: string
  brand :: string
  panel_type :: cell
  backlight_type :: cell
  dimming_zone_count :: cell

text \<open>The twelve value columns of \<^verbatim>\<open>spd_cols\<close>; a spectral row is the key with them.\<close>

record spd_cols =
  spd_classification :: cell
  spd_confidence :: cell
  ground_truth_tech :: cell
  ground_truth_qd_type :: cell
  match_status :: cell
  blue_peak_nm :: cell
  blue_fwhm_nm :: cell
  green_peak_nm :: cell
  green_fwhm_nm :: cell
  red_peak_nm :: cell
  red_fwhm_nm :: cell
  num_peaks :: cell

type_synonym spd_row = "int \<times> spd_cols"

record merged_row = tv_row +
  spd :: spd_cols

text \<open>
  The frame grows column by column. \<open>arch_row\<close> is a row once \<^verbatim>\<open>color_architecture\<close>
  is there (what \<^verbatim>\<open>determine_marketing_label\<close> is applied to), \<open>schema_row\<close> adds
  \<^verbatim>\<open>marketing_label\<close> (what the reclassification and \<^verbatim>\<open>determine_qd_material\<close> work
  on), \<open>output_row\<close> the last three columns. The source overwrites the column
  \<^verbatim>\<open>dimming_zone_count\<close> with its nullable-integer form; here the parsed column is the
  separate field \<open>dimming_zone_count_Int64\<close>, \<open>None\<close> for \<^verbatim>\<open>pd.NA\<close>.
\<close>

record arch_row = merged_row +
  display_type :: cell
  backlight_type_schema :: cell
  dimming_zone_count_Int64 :: "int option"
  color_architecture :: cell

record schema_row = arch_row +
  marketing_label :: string

record output_row = schema_row +
  qd_present :: string
  qd_material :: "string option"
  spd_verified :: string

subsection \<open>Schema merge\<close>

text \<open>
  \<^verbatim>\<open>tv_df.merge(spd_df[spd_cols], on='product_id', how='left')\<close>: the rows of the
  left table in their order; each is paired with every spectral row that has its key, in
  the order of the spectral table, and with NaN in all twelve columns when there is none.
\<close>

definition null_spd :: spd_cols where
  "null_spd =
     \<lparr>spd_classification = NaN, spd_confidence = NaN, ground_truth_tech = NaN,
      ground_truth_qd_type = NaN, match_status = NaN, blue_peak_nm = NaN,
      blue_fwhm_nm = NaN, green_peak_nm = NaN, green_fwhm_nm = NaN, red_peak_nm = NaN,
      red_fwhm_nm = NaN, num_peaks = NaN\<rparr>"

definition attach :: "tv_row \<Rightarrow> spd_cols \<Rightarrow> merged_row" where
  "attach s v = tv_row.extend s (merged_row.fields v)"

definition matches :: "tv_row \<Rightarrow> spd_row list \<Rightarrow> spd_row list" where
  "matches s P = filter (\<lambda>p. fst p = product_id s) P"

definition merge_row :: "spd_row list \<Rightarrow> tv_row \<Rightarrow> merged_row list" where
  "merge_row P s =
     (case matches s P of
        [] \<Rightarrow> [attach s null_spd]
      | m # ms \<Rightarrow> map (\<lambda>p. attach s (snd p)) (m # ms))"

definition merge :: "tv_row list \<Rightarrow> spd_row list \<Rightarrow> merged_row list" where
  "merge S P = concat (map (merge_row P) S)"

subsection \<open>Row functions\<close>

text \<open>\<^verbatim>\<open>map_backlight_type(rtings_value, panel_type)\<close>; an unknown value passes through.\<close>

definition map_backlight_type :: "cell \<Rightarrow> cell \<Rightarrow> cell" where
  "map_backlight_type rtings_value panel =
     (if panel = Str ''OLED'' then PyNone
      else if rtings_value = Str ''Full-Array'' then Str ''Direct-lit''
      else if rtings_value = Str ''Direct'' then Str ''Direct-lit''
      else if rtings_value = Str ''Edge'' then Str ''Edge-lit''
      else if rtings_value = Str ''No Backlight'' then PyNone
      else rtings_value)"

text \<open>
  \<^verbatim>\<open>determine_qd_material(row)\<close>. The column \<^verbatim>\<open>green_fwhm_nm\<close> is always in the merged
  frame, so the default of \<^verbatim>\<open>row.get\<close> is never taken. The \<^verbatim>\<open>try\<close> block returns from
  both branches of the comparison; the fallback after it is reached only when
  \<^verbatim>\<open>float\<close> raises \<^verbatim>\<open>ValueError\<close> or \<^verbatim>\<open>TypeError\<close>.
\<close>

definition determine_qd_material ::
  "(string \<Rightarrow> pyfloat option) \<Rightarrow> 'a schema_row_scheme \<Rightarrow> string option" where
  "determine_qd_material parse row =
     (let color_arch = color_architecture row in
      if color_arch \<notin> {Str ''QD-LCD'', Str ''QD-OLED''} then None
      else if color_arch = Str ''QD-OLED'' then Some ''InP''
      else
        let green_fwhm = green_fwhm_nm (spd row); b = brand row in
        if b \<in> {''Samsung'', ''Sony'', ''LG'', ''Panasonic'', ''Philips''} then Some ''InP''
        else
          (case py_float parse green_fwhm of
             Inr g_fwhm \<Rightarrow> if py_less g_fwhm 28 then Some ''CdSe'' else Some ''InP''
           | Inl _ \<Rightarrow>
               if b = ''Hisense'' then Some ''CdSe''
               else if b = ''TCL'' then Some ''CdSe''
               else Some ''Unknown''))"

text \<open>
  \<^verbatim>\<open>determine_marketing_label(row)\<close>. Each brand block is a function that returns
  \<open>Some\<close> label where the source returns and \<open>None\<close> where control leaves the block
  (only Samsung's and LG's can); the blocks are tried in the source's order.
\<close>

definition samsung_label :: "string \<Rightarrow> cell \<Rightarrow> string option" where
  "samsung_label name color_arch =
     (if contains ''QN9'' name \<or> contains ''QN8'' name \<or> contains ''QN7'' name
        then Some ''Neo QLED''
      else if prefix ''Samsung Q'' name \<and> \<not> contains ''OLED'' name then Some ''QLED''
      else if contains ''S95'' name \<or> contains ''S90'' name then Some ''QD-OLED''
      else if contains ''S85'' name \<and> contains ''OLED'' name
        then (if color_arch = Str ''QD-OLED'' then Some ''QD-OLED'' else Some ''Samsung OLED'')
      else if contains ''Frame'' name
        then (if contains ''Pro'' name then Some ''Neo QLED'' else Some ''QLED'')
      else if contains ''DU'' name \<or> contains ''U7'' name \<or> contains ''U8'' name
        then Some ''Crystal UHD''
      else None)"

definition lg_label :: "string \<Rightarrow> string option" where
  "lg_label name =
     (if contains ''OLED'' name
        then (if contains ''G4'' name \<or> contains ''G5'' name then Some ''OLED evo''
              else Some ''OLED'')
      else if contains ''QNED'' name then Some ''QNED''
      else if contains ''UT'' name \<or> contains ''UA'' name then Some ''UHD''
      else None)"

definition sony_label :: "string \<Rightarrow> cell \<Rightarrow> string" where
  "sony_label name color_arch =
     (if color_arch = Str ''QD-OLED'' then ''QD-OLED''
      else if contains ''OLED'' name then ''OLED''
      else ''BRAVIA'')"

definition hisense_label :: "string \<Rightarrow> cell \<Rightarrow> string" where
  "hisense_label name color_arch =
     (if color_arch \<in> {Str ''QD-LCD'', Str ''KSF'', Str ''Pseudo QD''}
        then (if contains ''U8'' name \<or> contains ''U9'' name then ''ULED'' else ''QLED'')
      else if contains ''Canvas'' name then ''CanvasTV''
      else ''ULED'')"

definition other_label :: "string \<Rightarrow> string \<Rightarrow> string" where
  "other_label b name =
     (if b = ''TCL''
        then (if contains ''QM'' name \<or> contains ''Q7'' name \<or> contains ''Q6'' name
              then ''QLED'' else '''')
      else if b = ''Panasonic'' then (if contains ''OLED'' name then ''OLED'' else '''')
      else if b = ''Roku'' then ''''
      else if b = ''Sharp'' then (if contains ''XLED'' name then ''XLED'' else '''')
      else if b = ''Philips'' then (if contains ''OLED'' name then ''OLED'' else '''')
      else '''')"

definition determine_marketing_label :: "'a arch_row_scheme \<Rightarrow> string" where
  "determine_marketing_label row =
     (let name = fullname row; b = brand row; color_arch = color_architecture row in
      case (if b = ''Samsung'' then samsung_label name color_arch else None) of
        Some l \<Rightarrow> l
      | None \<Rightarrow>
          (case (if b = ''LG'' then lg_label name else None) of
             Some l \<Rightarrow> l
           | None \<Rightarrow>
               if b = ''Sony'' then sony_label name color_arch
               else if b = ''Hisense'' then hisense_label name color_arch
               else other_label b name))"

subsection \<open>Column operations of \<^verbatim>\<open>build_schema\<close>\<close>

text \<open>
  \<^verbatim>\<open>merged['panel_type'].map({'OLED': 'OLED', 'LCD': 'LCD'}).fillna('LCD')\<close>: a value
  that is no key of the dictionary maps to NaN, which \<^verbatim>\<open>fillna\<close> replaces.
\<close>

definition panel_map :: "cell \<Rightarrow> cell" where
  "panel_map c =
     (if c = Str ''OLED'' then Str ''OLED'' else if c = Str ''LCD'' then Str ''LCD'' else NaN)"

definition fillna :: "cell \<Rightarrow> cell \<Rightarrow> cell" where
  "fillna v c = (if isna c then v else c)"

text \<open>
  \<^verbatim>\<open>pd.to_numeric(column, errors='coerce')\<close> on one value: a number stays, a string
  goes through pandas' numeral parser (the parameter \<open>parse\<close>), and whatever is not a
  number becomes NaN.
\<close>

definition to_numeric_coerce :: "(string \<Rightarrow> pyfloat option) \<Rightarrow> cell \<Rightarrow> pyfloat" where
  "to_numeric_coerce parse c =
     (case c of
        PyNone \<Rightarrow> FNaN
      | Flt f \<Rightarrow> f
      | Str s \<Rightarrow> (case parse s of None \<Rightarrow> FNaN | Some f \<Rightarrow> f))"

text \<open>
  \<^verbatim>\<open>.astype('Int64')\<close> on one value: NaN becomes \<^verbatim>\<open>pd.NA\<close>, a float that equals a
  64-bit integer becomes that integer, any other finite float makes pandas raise
  \<^verbatim>\<open>TypeError\<close> (cannot safely cast non-equivalent float64 to int64), and an infinite
  one \<^verbatim>\<open>OverflowError\<close>.
\<close>

definition astype_Int64 :: "pyfloat \<Rightarrow> error + int option" where
  "astype_Int64 f =
     (case f of
        FNaN \<Rightarrow> Inr None
      | Fin x \<Rightarrow>
          if of_int \<lfloor>x\<rfloor> = x \<and> - (2 ^ 63) \<le> \<lfloor>x\<rfloor> \<and> \<lfloor>x\<rfloor> < 2 ^ 63 then Inr (Some \<lfloor>x\<rfloor>)
          else Inl TypeError
      | PosInf \<Rightarrow> Inl OverflowError
      | NegInf \<Rightarrow> Inl OverflowError)"

text \<open>
  A conversion of a whole column raises as soon as one value does; the error is that of
  the first such value in the column.
\<close>

fun convert_column :: "('a \<Rightarrow> error + 'b) \<Rightarrow> 'a list \<Rightarrow> error + 'b list" where
  "convert_column f [] = Inr []"
| "convert_column f (x # xs) =
     (case f x of
        Inl e \<Rightarrow> Inl e
      | Inr y \<Rightarrow> (case convert_column f xs of Inl e \<Rightarrow> Inl e | Inr ys \<Rightarrow> Inr (y # ys)))"

definition parse_dimming_zone_count ::
  "(string \<Rightarrow> pyfloat option) \<Rightarrow> cell \<Rightarrow> error + int option" where
  "parse_dimming_zone_count parse c = astype_Int64 (to_numeric_coerce parse c)"

text \<open>
  Columns 1 to 3: \<^verbatim>\<open>display_type\<close>, \<^verbatim>\<open>backlight_type_schema\<close>, the parsed
  \<^verbatim>\<open>dimming_zone_count\<close> \<open>z\<close> with the fix that nulls it for OLED rows, and
  \<^verbatim>\<open>color_architecture\<close> as a copy of \<^verbatim>\<open>spd_classification\<close>.
\<close>

definition add_arch_columns :: "merged_row \<Rightarrow> int option \<Rightarrow> arch_row" where
  "add_arch_columns r z =
     (let dt = fillna (Str ''LCD'') (panel_map (panel_type r)) in
      merged_row.extend r
        (arch_row.fields dt
           (map_backlight_type (backlight_type r) (panel_type r))
           (if dt = Str ''OLED'' then None else z)
           (spd_classification (spd r))))"

definition add_marketing_label :: "arch_row \<Rightarrow> schema_row" where
  "add_marketing_label r = arch_row.extend r (schema_row.fields (determine_marketing_label r))"

text \<open>
  The reclassification pass. The mask is computed once from the frame as it is before
  the pass; the two assignments change \<^verbatim>\<open>color_architecture\<close> and
  \<^verbatim>\<open>spd_confidence\<close> of the masked rows, and nothing happens when no row is masked.
\<close>

definition qled_marketing :: "string list" where
  "qled_marketing = [''QLED'', ''QNED'', ''ULED'']"

definition reclass_mask :: "schema_row \<Rightarrow> bool" where
  "reclass_mask r =
     (color_architecture r = Str ''KSF'' \<and> marketing_label r \<in> set qled_marketing)"

definition reclass_row :: "schema_row \<Rightarrow> schema_row" where
  "reclass_row r =
     (if reclass_mask r
      then r\<lparr>color_architecture := Str ''Pseudo QD'',
             spd := (spd r)\<lparr>spd_confidence := Str ''medium''\<rparr>\<rparr>
      else r)"

definition reclassify :: "schema_row list \<Rightarrow> schema_row list" where
  "reclassify rows =
     (let reclass_count = length (filter reclass_mask rows) in
      if reclass_count > 0 then map reclass_row rows else rows)"

text \<open>The lambdas of columns 4 and 6.\<close>

definition qd_present_of :: "cell \<Rightarrow> string" where
  "qd_present_of x = (if x \<in> {Str ''QD-LCD'', Str ''QD-OLED''} then ''Yes'' else ''No'')"

definition spd_verified_of :: "cell \<Rightarrow> string" where
  "spd_verified_of x =
     (if py_truthy x \<and> x \<notin> {Str ''NO_SPD_IMAGE'', Str ''''} \<and> \<not> str_startswith ''ERROR'' x
      then ''Yes'' else ''No'')"

definition add_qd_columns :: "(string \<Rightarrow> pyfloat option) \<Rightarrow> schema_row \<Rightarrow> output_row" where
  "add_qd_columns parse r =
     schema_row.extend r
       (output_row.fields
          (qd_present_of (color_architecture r))
          (determine_qd_material parse r)
          (spd_verified_of (spd_classification (spd r))))"

text \<open>
  The whole derivation, from the two tables to the rows of the output. \<open>pf\<close> is the
  numeral parser of \<^verbatim>\<open>float\<close>, \<open>pn\<close> that of \<^verbatim>\<open>pd.to_numeric\<close>. The cast of
  the zone counts is the only step that can raise: the row functions compare and search
  strings, and \<^verbatim>\<open>determine_qd_material\<close> catches what \<^verbatim>\<open>float\<close> raises. This is
  pandas 2; from pandas 3 on the assignment of \<open>medium\<close> to a \<^verbatim>\<open>spd_confidence\<close>
  column that holds no text raises as well, which is not followed. The copy
  \<^verbatim>\<open>merged['color_architecture'] = merged['spd_classification']\<close> is a copy of the
  values, so the later assignments to \<^verbatim>\<open>color_architecture\<close> leave
  \<^verbatim>\<open>spd_classification\<close> as it was. The statements below are about the rows of a
  frame; what \<^verbatim>\<open>DataFrame.apply\<close> does on a frame without rows is not followed.
\<close>

definition build_schema ::
  "(string \<Rightarrow> pyfloat option) \<Rightarrow> (string \<Rightarrow> pyfloat option) \<Rightarrow>
   tv_row list \<Rightarrow> spd_row list \<Rightarrow> error + output_row list" where
  "build_schema pf pn tv_df spd_df =
     (let merged = merge tv_df spd_df in
      case convert_column (parse_dimming_zone_count pn) (map dimming_zone_count merged) of
        Inl e \<Rightarrow> Inl e
      | Inr zones \<Rightarrow>
          Inr (map (add_qd_columns pf)
                 (reclassify
                    (map add_marketing_label
                       (map (\<lambda>(r, z). add_arch_columns r z) (zip merged zones))))))"

subsection \<open>Example tables\<close>

text \<open>
  Small inputs on which the theorems below are exercised. \<open>no_numerals\<close> is a numeral
  parser that accepts no string; no example has a string in a numeric column.
\<close>

definition no_numerals :: "string \<Rightarrow> pyfloat option" where
  "no_numerals s = None"

definition tv_hisense_u6 :: tv_row where
  "tv_hisense_u6 =
     \<lparr>product_id = 1, fullname = ''Hisense U6N'', brand = ''Hisense'',
      panel_type = Str ''LCD'', backlight_type = Str ''Full-Array'',
      dimming_zone_count = Flt (Fin 160)\<rparr>"

definition tv_sony_a95l :: tv_row where
  "tv_sony_a95l =
     \<lparr>product_id = 2, fullname = ''Sony A95L OLED'', brand = ''Sony'',
      panel_type = Str ''OLED'', backlight_type = Str ''No Backlight'',
      dimming_zone_count = Flt (Fin 8294400)\<rparr>"

definition tv_roku :: tv_row where
  "tv_roku =
     \<lparr>product_id = 3, fullname = ''Roku Select Series'', brand = ''Roku'',
      panel_type = Str ''LCD'', backlight_type = Str ''Direct'',
      dimming_zone_count = NaN\<rparr>"

definition tv_hisense_u8 :: tv_row where
  "tv_hisense_u8 =
     \<lparr>product_id = 4, fullname = ''Hisense U8N'', brand = ''Hisense'',
      panel_type = Str ''LCD'', backlight_type = Str ''Full-Array'',
      dimming_zone_count = Flt (Fin 2000)\<rparr>"

definition spd_ksf :: spd_cols where
  "spd_ksf = null_spd\<lparr>spd_classification := Str ''KSF'', spd_confidence := Str ''high''\<rparr>"

definition spd_qd_oled :: spd_cols where
  "spd_qd_oled =
     null_spd\<lparr>spd_classification := Str ''QD-OLED'', spd_confidence := Str ''high''\<rparr>"

definition spd_woled :: spd_cols where
  "spd_woled = null_spd\<lparr>spd_classification := Str ''WOLED'', spd_confidence := Str ''high''\<rparr>"

text \<open>A QD-LCD classification whose green peak width was left empty in the CSV.\<close>

definition spd_qd_lcd_no_fwhm :: spd_cols where
  "spd_qd_lcd_no_fwhm =
     null_spd\<lparr>spd_classification := Str ''QD-LCD'', spd_confidence := Str ''high''\<rparr>"

text \<open>Two rows as they stand before the reclassification, both classified KSF.\<close>

definition ksf_rows :: "schema_row list" where
  "ksf_rows =
     [add_marketing_label (add_arch_columns (attach tv_hisense_u6 spd_ksf) (Some 160)),
      add_marketing_label (add_arch_columns (attach tv_roku spd_ksf) None)]"

text \<open>
  A run on two televisions with a spectral row each, and the two rows it puts out: the
  merged row taken through the column steps, with the parsed zone count.
\<close>

definition example_tv :: "tv_row list" where
  "example_tv = [tv_hisense_u6, tv_sony_a95l]"

definition example_spd :: "spd_row list" where
  "example_spd = [(1, spd_ksf), (2, spd_qd_oled)]"

definition out_hisense_u6 :: output_row where
  "out_hisense_u6 =
     add_qd_columns no_numerals (reclass_row (add_marketing_label
       (add_arch_columns (attach tv_hisense_u6 spd_ksf) (Some 160))))"

definition out_sony_a95l :: output_row where
  "out_sony_a95l =
     add_qd_columns no_numerals (reclass_row (add_marketing_label
       (add_arch_columns (attach tv_sony_a95l spd_qd_oled) (Some 8294400))))"

section \<open>Properties\<close>

subsection \<open>Fields of the rows the column steps build\<close>

lemma attach_fields [simp]:
  "product_id (attach s v) = product_id s"
  "fullname (attach s v) = fullname s"
  "brand (attach s v) = brand s"
  "panel_type (attach s v) = panel_type s"
  "backlight_type (attach s v) = backlight_type s"
  "dimming_zone_count (attach s v) = dimming_zone_count s"
  "spd (attach s v) = v"
  by (simp_all add: attach_def tv_row.defs merged_row.defs)

lemma add_arch_columns_fields [simp]:
  "product_id (add_arch_columns r z) = product_id r"
  "fullname (add_arch_columns r z) = fullname r"
  "brand (add_arch_columns r z) = brand r"
  "panel_type (add_arch_columns r z) = panel_type r"
  "backlight_type (add_arch_columns r z) = backlight_type r"
  "dimming_zone_count (add_arch_columns r z) = dimming_zone_count r"
  "spd (add_arch_columns r z) = spd r"
  "display_type (add_arch_columns r z) = fillna (Str ''LCD'') (panel_map (panel_type r))"
  "backlight_type_schema (add_arch_columns r z) =
     map_backlight_type (backlight_type r) (panel_type r)"
  "dimming_zone_count_Int64 (add_arch_columns r z) =
     (if fillna (Str ''LCD'') (panel_map (panel_type r)) = Str ''OLED'' then None else z)"
  "color_architecture (add_arch_columns r z) = spd_classification (spd r)"
  by (simp_all add: add_arch_columns_def Let_def merged_row.defs arch_row.defs)

lemma add_marketing_label_fields [simp]:
  "product_id (add_marketing_label r) = product_id r"
  "fullname (add_marketing_label r) = fullname r"
  "brand (add_marketing_label r) = brand r"
  "panel_type (add_marketing_label r) = panel_type r"
  "backlight_type (add_marketing_label r) = backlight_type r"
  "dimming_zone_count (add_marketing_label r) = dimming_zone_count r"
  "spd (add_marketing_label r) = spd r"
  "display_type (add_marketing_label r) = display_type r"
  "backlight_type_schema (add_marketing_label r) = backlight_type_schema r"
  "dimming_zone_count_Int64 (add_marketing_label r) = dimming_zone_count_Int64 r"
  "color_architecture (add_marketing_label r) = color_architecture r"
  "marketing_label (add_marketing_label r) = determine_marketing_label r"
  by (simp_all add: add_marketing_label_def arch_row.defs schema_row.defs)

lemma add_qd_columns_fields [simp]:
  "product_id (add_qd_columns pf r) = product_id r"
  "fullname (add_qd_columns pf r) = fullname r"
  "brand (add_qd_columns pf r) = brand r"
  "panel_type (add_qd_columns pf r) = panel_type r"
  "backlight_type (add_qd_columns pf r) = backlight_type r"
  "dimming_zone_count (add_qd_columns pf r) = dimming_zone_count r"
  "spd (add_qd_columns pf r) = spd r"
  "display_type (add_qd_columns pf r) = display_type r"
  "backlight_type_schema (add_qd_columns pf r) = backlight_type_schema r"
  "dimming_zone_count_Int64 (add_qd_columns pf r) = dimming_zone_count_Int64 r"
  "color_architecture (add_qd_columns pf r) = color_architecture r"
  "marketing_label (add_qd_columns pf r) = marketing_label r"
  "qd_present (add_qd_columns pf r) = qd_present_of (color_architecture r)"
  "qd_material (add_qd_columns pf r) = determine_qd_material pf r"
  "spd_verified (add_qd_columns pf r) = spd_verified_of (spd_classification (spd r))"
  by (simp_all add: add_qd_columns_def schema_row.defs output_row.defs)

lemma reclass_row_fields [simp]:
  "product_id (reclass_row r) = product_id r"
  "fullname (reclass_row r) = fullname r"
  "brand (reclass_row r) = brand r"
  "panel_type (reclass_row r) = panel_type r"
  "backlight_type (reclass_row r) = backlight_type r"
  "dimming_zone_count (reclass_row r) = dimming_zone_count r"
  "display_type (reclass_row r) = display_type r"
  "backlight_type_schema (reclass_row r) = backlight_type_schema r"
  "dimming_zone_count_Int64 (reclass_row r) = dimming_zone_count_Int64 r"
  "marketing_label (reclass_row r) = marketing_label r"
  "spd_classification (spd (reclass_row r)) = spd_classification (spd r)"
  "green_fwhm_nm (spd (reclass_row r)) = green_fwhm_nm (spd r)"
  by (simp_all add: reclass_row_def)

lemma reclass_row_color_architecture:
  "color_architecture (reclass_row r) =
     (if reclass_mask r then Str ''Pseudo QD'' else color_architecture r)"
  by (simp add: reclass_row_def)

lemma reclass_row_spd_confidence:
  "spd_confidence (spd (reclass_row r)) =
     (if reclass_mask r then Str ''medium'' else spd_confidence (spd r))"
  by (simp add: reclass_row_def)

subsection \<open>The reclassification pass\<close>

text \<open>
  The guard on the count changes nothing: when no row is masked, rewriting the masked rows
  is the identity. So the pass is the row function applied to every row.
\<close>

lemma reclassify_map: "reclassify rows = map reclass_row rows"
proof (cases "filter reclass_mask rows = []")
  case True
  then have "\<forall>r \<in> set rows. \<not> reclass_mask r"
    by (simp add: filter_empty_conv)
  then have "map reclass_row rows = rows"
    by (simp add: map_idI reclass_row_def)
  with True show ?thesis
    by (simp add: reclassify_def)
next
  case False
  then show ?thesis
    by (simp add: reclassify_def)
qed

lemma reclass_mask_reclass_row: "\<not> reclass_mask (reclass_row r)"
  by (simp add: reclass_mask_def reclass_row_def)

lemma reclass_row_idem: "reclass_row (reclass_row r) = reclass_row r"
  using reclass_mask_reclass_row [of r] by (simp add: reclass_row_def [of "reclass_row r"])

lemma ksf_rows_fields:
  "length ksf_rows = 2"
  "color_architecture (ksf_rows ! 0) = Str ''KSF''"
  "marketing_label (ksf_rows ! 0) = ''QLED''"
  "spd_confidence (spd (ksf_rows ! 0)) = Str ''high''"
  "color_architecture (ksf_rows ! Suc 0) = Str ''KSF''"
  "marketing_label (ksf_rows ! Suc 0) = []"
  "spd_confidence (spd (ksf_rows ! Suc 0)) = Str ''high''"
  by (simp_all add: ksf_rows_def spd_ksf_def tv_hisense_u6_def tv_roku_def
      determine_marketing_label_def hisense_label_def other_label_def)

text \<open>
  C1. In the reclassification pass, a row with \<^verbatim>\<open>color_architecture\<close> KSF whose
  \<^verbatim>\<open>marketing_label\<close> is QLED, QNED or ULED gets \<^verbatim>\<open>color_architecture\<close> "Pseudo QD"
  and \<^verbatim>\<open>spd_confidence\<close> "medium"; a KSF row with any other label, the empty one
  included, keeps KSF and its \<^verbatim>\<open>spd_confidence\<close>. The pass keeps the number and the
  order of the rows.
\<close>

theorem reclassify_rule:
  assumes "i < length rows"
  shows "length (reclassify rows) = length rows \<and>
    (color_architecture (rows ! i) = Str ''KSF'' \<and>
     marketing_label (rows ! i) \<in> {''QLED'', ''QNED'', ''ULED''} \<longrightarrow>
       color_architecture (reclassify rows ! i) = Str ''Pseudo QD'' \<and>
       spd_confidence (spd (reclassify rows ! i)) = Str ''medium'') \<and>
    (color_architecture (rows ! i) = Str ''KSF'' \<and>
     marketing_label (rows ! i) \<notin> {''QLED'', ''QNED'', ''ULED''} \<longrightarrow>
       color_architecture (reclassify rows ! i) = Str ''KSF'' \<and>
       spd_confidence (spd (reclassify rows ! i)) = spd_confidence (spd (rows ! i)))"
  using assms
  by (simp add: reclassify_map reclass_row_color_architecture reclass_row_spd_confidence
      reclass_mask_def qled_marketing_def)

theorem reclassify_rule_witness:
  "color_architecture (reclassify ksf_rows ! 0) = Str ''Pseudo QD'' \<and>
   spd_confidence (spd (reclassify ksf_rows ! 0)) = Str ''medium'' \<and>
   color_architecture (reclassify ksf_rows ! 1) = Str ''KSF'' \<and>
   spd_confidence (spd (reclassify ksf_rows ! 1)) = Str ''high''"
  using reclassify_rule [of 0 ksf_rows] reclassify_rule [of 1 ksf_rows]
  by (simp add: ksf_rows_fields)

subsection \<open>Rows of the output\<close>

lemma convert_column_length:
  "convert_column f xs = Inr ys \<Longrightarrow> length ys = length xs"
  by (induction xs arbitrary: ys) (auto split: sum.splits)

lemma convert_column_nth:
  "convert_column f xs = Inr ys \<Longrightarrow> i < length xs \<Longrightarrow> f (xs ! i) = Inr (ys ! i)"
proof (induction xs arbitrary: ys i)
  case Nil
  then show ?case by simp
next
  case (Cons x xs)
  then show ?case
    by (cases i) (auto split: sum.splits)
qed

text \<open>Every output row is one merged row taken through the column steps.\<close>

lemma build_schema_rows:
  assumes "build_schema pf pn tv_df spd_df = Inr out" and "r \<in> set out"
  shows "\<exists>m z. m \<in> set (merge tv_df spd_df) \<and>
           parse_dimming_zone_count pn (dimming_zone_count m) = Inr z \<and>
           r = add_qd_columns pf (reclass_row (add_marketing_label (add_arch_columns m z)))"
proof -
  let ?merged = "merge tv_df spd_df"
  from assms(1) obtain zones where
    zs: "convert_column (parse_dimming_zone_count pn) (map dimming_zone_count ?merged) = Inr zones"
    and out: "out = map (add_qd_columns pf)
                 (reclassify (map add_marketing_label
                    (map (\<lambda>(r, z). add_arch_columns r z) (zip ?merged zones))))"
    by (auto simp: build_schema_def Let_def split: sum.splits)
  from assms(2) out obtain p where p: "p \<in> set (zip ?merged zones)"
    and r: "r = add_qd_columns pf (reclass_row (add_marketing_label
                  (add_arch_columns (fst p) (snd p))))"
    by (auto simp: reclassify_map)
  from p obtain i where i: "i < length ?merged" "fst p = ?merged ! i" "snd p = zones ! i"
    unfolding in_set_zip by auto
  have "parse_dimming_zone_count pn (dimming_zone_count (fst p)) = Inr (snd p)"
    using convert_column_nth [OF zs, of i] i by simp
  moreover have "fst p \<in> set ?merged"
    using i by simp
  ultimately show ?thesis
    using r by blast
qed

lemma example_run:
  "build_schema no_numerals no_numerals example_tv example_spd =
     Inr [out_hisense_u6, out_sony_a95l]"
proof -
  have m: "merge example_tv example_spd =
      [attach tv_hisense_u6 spd_ksf, attach tv_sony_a95l spd_qd_oled]"
    by (simp add: example_tv_def example_spd_def merge_def merge_row_def matches_def
        tv_hisense_u6_def tv_sony_a95l_def)
  have z1: "parse_dimming_zone_count no_numerals (dimming_zone_count tv_hisense_u6) =
      Inr (Some 160)"
    by (simp add: parse_dimming_zone_count_def to_numeric_coerce_def astype_Int64_def
        tv_hisense_u6_def)
  have z2: "parse_dimming_zone_count no_numerals (dimming_zone_count tv_sony_a95l) =
      Inr (Some 8294400)"
    by (simp add: parse_dimming_zone_count_def to_numeric_coerce_def astype_Int64_def
        tv_sony_a95l_def)
  show ?thesis
    by (simp add: build_schema_def m z1 z2 reclassify_map out_hisense_u6_def
        out_sony_a95l_def)
qed

lemma determine_qd_material_None:
  "color_architecture r \<notin> {Str ''QD-LCD'', Str ''QD-OLED''} \<Longrightarrow>
   determine_qd_material pf r = None"
  by (simp add: determine_qd_material_def)

text \<open>
  C2. In every row of the output, \<^verbatim>\<open>qd_present\<close> is "Yes" exactly when the
  \<^verbatim>\<open>color_architecture\<close> of that row, which is the reclassified one, is QD-LCD or
  QD-OLED, and "No" otherwise; so a row reclassified to "Pseudo QD" has "No". A
  \<^verbatim>\<open>qd_material\<close> that is not null comes with \<^verbatim>\<open>qd_present\<close> "Yes", and
  \<^verbatim>\<open>qd_present\<close> "No" with a null \<^verbatim>\<open>qd_material\<close>.
\<close>

theorem qd_present_invariant:
  assumes "build_schema pf pn tv_df spd_df = Inr out" and "r \<in> set out"
  shows "(qd_present r = ''Yes'' \<longleftrightarrow>
            color_architecture r \<in> {Str ''QD-LCD'', Str ''QD-OLED''}) \<and>
    (qd_present r = ''Yes'' \<or> qd_present r = ''No'') \<and>
    (color_architecture r = Str ''Pseudo QD'' \<longrightarrow> qd_present r = ''No'') \<and>
    (qd_material r \<noteq> None \<longrightarrow> qd_present r = ''Yes'') \<and>
    (qd_present r = ''No'' \<longrightarrow> qd_material r = None) \<and>
    color_architecture r =
      (if spd_classification (spd r) = Str ''KSF'' \<and>
          marketing_label r \<in> {''QLED'', ''QNED'', ''ULED''}
       then Str ''Pseudo QD'' else spd_classification (spd r))"
proof -
  from build_schema_rows [OF assms] obtain m z where
    r: "r = add_qd_columns pf (reclass_row (add_marketing_label (add_arch_columns m z)))"
    by blast
  let ?s = "reclass_row (add_marketing_label (add_arch_columns m z))"
  have present: "qd_present r = qd_present_of (color_architecture r)"
    and material: "qd_material r = determine_qd_material pf ?s"
    and arch: "color_architecture r = color_architecture ?s"
    by (simp_all add: r)
  have 1: "qd_present r = ''Yes'' \<longleftrightarrow>
      color_architecture r \<in> {Str ''QD-LCD'', Str ''QD-OLED''}"
    by (simp add: present qd_present_of_def)
  have 2: "qd_present r = ''Yes'' \<or> qd_present r = ''No''"
    by (simp add: present qd_present_of_def)
  have 3: "color_architecture r = Str ''Pseudo QD'' \<longrightarrow> qd_present r = ''No''"
    by (simp add: present qd_present_of_def)
  have 4: "qd_material r \<noteq> None \<longrightarrow> qd_present r = ''Yes''"
    using determine_qd_material_None [of ?s pf] 1 by (auto simp: material arch)
  have 5: "qd_present r = ''No'' \<longrightarrow> qd_material r = None"
    using 4 by auto
  have 6: "color_architecture r =
      (if spd_classification (spd r) = Str ''KSF'' \<and>
          marketing_label r \<in> {''QLED'', ''QNED'', ''ULED''}
       then Str ''Pseudo QD'' else spd_classification (spd r))"
    by (simp add: r reclass_row_color_architecture reclass_mask_def qled_marketing_def)
  from 1 2 3 4 5 6 show ?thesis by blast
qed

theorem qd_present_invariant_witness:
  "build_schema no_numerals no_numerals example_tv example_spd =
     Inr [out_hisense_u6, out_sony_a95l] \<and>
   color_architecture out_hisense_u6 = Str ''Pseudo QD'' \<and>
   qd_present out_hisense_u6 = ''No'' \<and>
   qd_material out_hisense_u6 = None"
  using qd_present_invariant [OF example_run, of out_hisense_u6] example_run
  by (simp add: out_hisense_u6_def spd_ksf_def tv_hisense_u6_def
      determine_marketing_label_def hisense_label_def)

subsection \<open>Quantum dot material\<close>

text \<open>
  What \<^verbatim>\<open>determine_qd_material\<close> returns for a QD-LCD row of a brand outside the
  override table, by the content of \<^verbatim>\<open>green_fwhm_nm\<close>: a float is compared with 28,
  and the comparison is false for NaN, so an empty cell gives InP; the brand fallback is
  reached only from \<^verbatim>\<open>None\<close> or a string that \<^verbatim>\<open>float\<close> rejects.
\<close>

lemma determine_qd_material_qd_lcd:
  assumes "color_architecture r = Str ''QD-LCD''"
    and "brand r \<notin> {''Samsung'', ''Sony'', ''LG'', ''Panasonic'', ''Philips''}"
  shows "green_fwhm_nm (spd r) = Flt (Fin x) \<Longrightarrow>
           determine_qd_material pf r = (if x < 28 then Some ''CdSe'' else Some ''InP'')"
    and "green_fwhm_nm (spd r) = NaN \<Longrightarrow> determine_qd_material pf r = Some ''InP''"
    and "green_fwhm_nm (spd r) = PyNone \<or> (green_fwhm_nm (spd r) = Str s \<and> pf s = None) \<Longrightarrow>
           determine_qd_material pf r =
             (if brand r = ''Hisense'' \<or> brand r = ''TCL'' then Some ''CdSe''
              else Some ''Unknown'')"
  using assms
  by (auto simp: determine_qd_material_def Let_def py_float_def py_less_def)

text \<open>
  C3. The claim gives the chain that decides \<^verbatim>\<open>qd_material\<close> of a QD-LCD or QD-OLED
  row and sends a missing green-channel FWHM to the brand fallback (Hisense and TCL to
  CdSe, others to Unknown). The code does not do so for the value a missing FWHM has in
  the frame: the Hisense row below is classified QD-LCD with an empty
  \<^verbatim>\<open>green_fwhm_nm\<close> cell, which is NaN; \<^verbatim>\<open>float\<close> returns NaN without raising, NaN is
  not below 28, and the row gets InP, not CdSe.
\<close>

theorem qd_material_missing_fwhm:
  "map_sum id (map qd_material)
     (build_schema no_numerals no_numerals [tv_hisense_u8] [(4, spd_qd_lcd_no_fwhm)]) =
   Inr [Some ''InP'']"
proof -
  have m: "merge [tv_hisense_u8] [(4, spd_qd_lcd_no_fwhm)] =
      [attach tv_hisense_u8 spd_qd_lcd_no_fwhm]"
    by (simp add: merge_def merge_row_def matches_def tv_hisense_u8_def)
  have z: "parse_dimming_zone_count no_numerals (dimming_zone_count tv_hisense_u8) =
      Inr (Some 2000)"
    by (simp add: parse_dimming_zone_count_def to_numeric_coerce_def astype_Int64_def
        tv_hisense_u8_def)
  have q: "determine_qd_material no_numerals
       (reclass_row (add_marketing_label
          (add_arch_columns (attach tv_hisense_u8 spd_qd_lcd_no_fwhm) (Some 2000)))) =
       Some ''InP''"
    by (simp add: determine_qd_material_def reclass_row_color_architecture reclass_mask_def
        spd_qd_lcd_no_fwhm_def null_spd_def tv_hisense_u8_def py_float_def py_less_def)
  show ?thesis
    by (simp add: build_schema_def m z reclassify_map q)
qed

subsection \<open>Spectral verification flag\<close>

text \<open>
  The lambda of \<^verbatim>\<open>spd_verified\<close> on a string, and on NaN: NaN is a true value, differs
  from both strings of the tuple, and prints as \<open>nan\<close>.
\<close>

lemma spd_verified_of_Str:
  "spd_verified_of (Str s) =
     (if s \<noteq> [] \<and> s \<noteq> ''NO_SPD_IMAGE'' \<and> \<not> prefix ''ERROR'' s then ''Yes'' else ''No'')"
  by (auto simp: spd_verified_of_def py_truthy_def str_startswith_def)

lemma spd_verified_of_NaN: "spd_verified_of NaN = ''Yes''"
  by (simp add: spd_verified_of_def py_truthy_def str_startswith_def)

text \<open>
  C4. The claim has \<^verbatim>\<open>spd_verified\<close> "No" whenever the raw \<^verbatim>\<open>spd_classification\<close>
  is empty, the sentinel \<open>NO_SPD_IMAGE\<close>, or starts with \<open>ERROR\<close>, and in particular
  for a row without a spectral match. The code gives "Yes" to such a row: the television
  below has no partner in the (empty) spectral table, its \<^verbatim>\<open>spd_classification\<close> is
  NaN after the join, and the lambda returns "Yes" for NaN.
\<close>

theorem spd_verified_missing_classification:
  "map_sum id (map (\<lambda>r. (spd_classification (spd r), spd_verified r)))
     (build_schema no_numerals no_numerals [tv_sony_a95l] []) =
   Inr [(NaN, ''Yes'')]"
proof -
  have m: "merge [tv_sony_a95l] [] = [attach tv_sony_a95l null_spd]"
    by (simp add: merge_def merge_row_def matches_def)
  have z: "parse_dimming_zone_count no_numerals (dimming_zone_count tv_sony_a95l) =
      Inr (Some 8294400)"
    by (simp add: parse_dimming_zone_count_def to_numeric_coerce_def astype_Int64_def
        tv_sony_a95l_def)
  have v: "spd_verified_of (spd_classification null_spd) = ''Yes''"
    by (simp add: spd_verified_of_NaN null_spd_def)
  show ?thesis
    by (simp add: build_schema_def m z reclassify_map v) (simp add: null_spd_def)
qed

subsection \<open>Marketing label\<close>

text \<open>
  C5, as claimed: two merged rows that agree on \<^verbatim>\<open>brand\<close> and \<^verbatim>\<open>fullname\<close> get the
  same \<^verbatim>\<open>marketing_label\<close>, whatever \<^verbatim>\<open>spd_classification\<close> is. This fails: the Sony
  block reads \<^verbatim>\<open>color_architecture\<close> first, so the same television is labelled
  "QD-OLED" with a QD-OLED classification and "OLED" with a WOLED one.
\<close>

theorem marketing_label_reads_color_architecture:
  "brand (add_arch_columns (attach tv_sony_a95l spd_qd_oled) None) =
     brand (add_arch_columns (attach tv_sony_a95l spd_woled) None) \<and>
   fullname (add_arch_columns (attach tv_sony_a95l spd_qd_oled) None) =
     fullname (add_arch_columns (attach tv_sony_a95l spd_woled) None) \<and>
   determine_marketing_label (add_arch_columns (attach tv_sony_a95l spd_qd_oled) None) =
     ''QD-OLED'' \<and>
   determine_marketing_label (add_arch_columns (attach tv_sony_a95l spd_woled) None) =
     ''OLED''"
  by (simp add: determine_marketing_label_def sony_label_def tv_sony_a95l_def spd_qd_oled_def
      spd_woled_def)

text \<open>
  C5, amended: \<^verbatim>\<open>marketing_label\<close> is a function of \<^verbatim>\<open>brand\<close>, \<^verbatim>\<open>fullname\<close> and the
  \<^verbatim>\<open>color_architecture\<close> copied from \<^verbatim>\<open>spd_classification\<close>: two rows that agree on
  these three get the same label, whatever their other fields are; for a brand other than
  Samsung, Sony and Hisense, agreeing on \<^verbatim>\<open>brand\<close> and \<^verbatim>\<open>fullname\<close> is enough.
\<close>

theorem marketing_label_function:
  assumes "brand r1 = brand r2" and "fullname r1 = fullname r2"
  shows "(color_architecture r1 = color_architecture r2 \<longrightarrow>
            determine_marketing_label r1 = determine_marketing_label r2) \<and>
         (brand r1 \<notin> {''Samsung'', ''Sony'', ''Hisense''} \<longrightarrow>
            determine_marketing_label r1 = determine_marketing_label r2)"
  using assms by (auto simp: determine_marketing_label_def Let_def)

theorem marketing_label_function_witness:
  "determine_marketing_label (add_arch_columns (attach tv_sony_a95l spd_qd_oled) None) =
   determine_marketing_label
     (add_arch_columns (attach (tv_sony_a95l\<lparr>product_id := 7, panel_type := NaN\<rparr>)
        (spd_qd_oled\<lparr>spd_confidence := Str ''low''\<rparr>)) (Some 3)) \<and>
   determine_marketing_label (add_arch_columns (attach tv_roku spd_ksf) None) =
   determine_marketing_label (add_arch_columns (attach tv_roku spd_woled) None)"
  using marketing_label_function
      [of "add_arch_columns (attach tv_sony_a95l spd_qd_oled) None"
          "add_arch_columns (attach (tv_sony_a95l\<lparr>product_id := 7, panel_type := NaN\<rparr>)
             (spd_qd_oled\<lparr>spd_confidence := Str ''low''\<rparr>)) (Some 3)"]
    marketing_label_function
      [of "add_arch_columns (attach tv_roku spd_ksf) None"
          "add_arch_columns (attach tv_roku spd_woled) None"]
  by (simp add: spd_qd_oled_def tv_roku_def)

subsection \<open>Display type, backlight and dimming zones\<close>

lemma fillna_panel_map:
  "fillna (Str ''LCD'') (panel_map p) = (if p = Str ''OLED'' then Str ''OLED'' else Str ''LCD'')"
  by (simp add: fillna_def panel_map_def isna_def)

text \<open>
  C6. In every row of the output, \<^verbatim>\<open>display_type\<close> is "OLED" exactly when
  \<^verbatim>\<open>panel_type\<close> is "OLED" and "LCD" for every other \<^verbatim>\<open>panel_type\<close>, a missing one
  included; it is never null. Where \<^verbatim>\<open>display_type\<close> is "OLED", the schema's
  backlight type and the parsed \<^verbatim>\<open>dimming_zone_count\<close> are null, whatever the raw values.
\<close>

theorem display_type_invariant:
  assumes "build_schema pf pn tv_df spd_df = Inr out" and "r \<in> set out"
  shows "(display_type r = Str ''OLED'' \<longleftrightarrow> panel_type r = Str ''OLED'') \<and>
    (panel_type r \<noteq> Str ''OLED'' \<longrightarrow> display_type r = Str ''LCD'') \<and>
    \<not> isna (display_type r) \<and>
    (display_type r = Str ''OLED'' \<longrightarrow>
       backlight_type_schema r = PyNone \<and> dimming_zone_count_Int64 r = None)"
proof -
  from build_schema_rows [OF assms] obtain m z where
    r: "r = add_qd_columns pf (reclass_row (add_marketing_label (add_arch_columns m z)))"
    by blast
  have dt: "display_type r =
      (if panel_type r = Str ''OLED'' then Str ''OLED'' else Str ''LCD'')"
    by (simp add: r fillna_panel_map)
  have bl: "backlight_type_schema r = map_backlight_type (backlight_type r) (panel_type r)"
    by (simp add: r)
  have dz: "dimming_zone_count_Int64 r = (if display_type r = Str ''OLED'' then None else z)"
    by (simp add: r)
  show ?thesis
    by (simp add: dt bl dz isna_def map_backlight_type_def)
qed

theorem display_type_invariant_witness:
  "build_schema no_numerals no_numerals example_tv example_spd =
     Inr [out_hisense_u6, out_sony_a95l] \<and>
   dimming_zone_count out_sony_a95l = Flt (Fin 8294400) \<and>
   display_type out_sony_a95l = Str ''OLED'' \<and>
   backlight_type_schema out_sony_a95l = PyNone \<and>
   dimming_zone_count_Int64 out_sony_a95l = None \<and>
   display_type out_hisense_u6 = Str ''LCD''"
  using display_type_invariant [OF example_run, of out_sony_a95l]
    display_type_invariant [OF example_run, of out_hisense_u6] example_run
  by (simp add: out_sony_a95l_def out_hisense_u6_def tv_sony_a95l_def tv_hisense_u6_def)

subsection \<open>What the reclassification leaves alone\<close>

lemma ksf_rows_reclassified:
  "color_architecture (reclassify ksf_rows ! 0) = Str ''Pseudo QD''"
  "color_architecture (reclassify ksf_rows ! Suc 0) = Str ''KSF''"
  by (simp_all add: reclassify_map ksf_rows_fields reclass_row_color_architecture
      reclass_mask_def qled_marketing_def)

text \<open>
  C7. The reclassification pass changes nothing but \<^verbatim>\<open>color_architecture\<close> and
  \<^verbatim>\<open>spd_confidence\<close>, and these only in the rows it reclassifies: the frame keeps
  its rows; the columns \<^verbatim>\<open>marketing_label\<close> and \<^verbatim>\<open>spd_classification\<close> are the
  same before and after, and so is the \<^verbatim>\<open>spd_verified\<close> derived from the frame; once
  the two fields are overwritten with fixed values the frame after the pass is the frame
  before it; and each row after the pass is the row before it, with the two fields set
  when it is a KSF row marketed as QLED, QNED or ULED, and untouched otherwise.
\<close>

theorem reclassify_frame:
  "length (reclassify rows) = length rows \<and>
   map marketing_label (reclassify rows) = map marketing_label rows \<and>
   map (\<lambda>r. spd_classification (spd r)) (reclassify rows) =
     map (\<lambda>r. spd_classification (spd r)) rows \<and>
   map (\<lambda>r. spd_verified (add_qd_columns pf r)) (reclassify rows) =
     map (\<lambda>r. spd_verified (add_qd_columns pf r)) rows \<and>
   map (\<lambda>r. r\<lparr>color_architecture := c, spd := (spd r)\<lparr>spd_confidence := k\<rparr>\<rparr>)
       (reclassify rows) =
     map (\<lambda>r. r\<lparr>color_architecture := c, spd := (spd r)\<lparr>spd_confidence := k\<rparr>\<rparr>) rows \<and>
   (\<forall>i < length rows.
      reclassify rows ! i =
        (if color_architecture (rows ! i) = Str ''KSF'' \<and>
            marketing_label (rows ! i) \<in> {''QLED'', ''QNED'', ''ULED''}
         then (rows ! i)\<lparr>color_architecture := Str ''Pseudo QD'',
                spd := (spd (rows ! i))\<lparr>spd_confidence := Str ''medium''\<rparr>\<rparr>
         else rows ! i))"
  by (simp add: reclassify_map) (auto simp: reclass_row_def reclass_mask_def qled_marketing_def)

text \<open>
  The first of the two example rows changes from KSF to "Pseudo QD" and keeps the
  \<^verbatim>\<open>spd_verified\<close> "Yes" of its raw classification; the second, a KSF row without a
  label, comes out as it went in.
\<close>

theorem reclassify_frame_witness:
  "color_architecture (ksf_rows ! 0) = Str ''KSF'' \<and>
   color_architecture (reclassify ksf_rows ! 0) = Str ''Pseudo QD'' \<and>
   reclassify ksf_rows ! Suc 0 = ksf_rows ! Suc 0 \<and>
   map (\<lambda>r. spd_verified (add_qd_columns no_numerals r)) (reclassify ksf_rows) =
     [''Yes'', ''Yes''] \<and>
   map (\<lambda>r. spd_verified (add_qd_columns no_numerals r)) ksf_rows = [''Yes'', ''Yes'']"
proof -
  have v: "map (\<lambda>r. spd_verified (add_qd_columns no_numerals r)) ksf_rows = [''Yes'', ''Yes'']"
    by (simp add: ksf_rows_def spd_ksf_def spd_verified_of_Str)
  have l: "0 < length ksf_rows" "Suc 0 < length ksf_rows"
    by (simp_all add: ksf_rows_fields)
  show ?thesis
    using reclassify_frame [of ksf_rows no_numerals] l v
    by (simp add: ksf_rows_fields)
qed

text \<open>
  C8. Applying the reclassification pass twice gives what applying it once gives, and a
  row whose \<^verbatim>\<open>color_architecture\<close> is "Pseudo QD" is left as it is by the pass.
\<close>

theorem reclassify_idempotent:
  "reclassify (reclassify rows) = reclassify rows \<and>
   (\<forall>i < length rows. color_architecture (rows ! i) = Str ''Pseudo QD'' \<longrightarrow>
      reclassify rows ! i = rows ! i)"
  by (simp add: reclassify_map reclass_row_idem) (simp add: reclass_row_def reclass_mask_def)

theorem reclassify_idempotent_witness:
  "color_architecture (reclassify ksf_rows ! 0) = Str ''Pseudo QD'' \<and>
   reclassify (reclassify ksf_rows) ! 0 = reclassify ksf_rows ! 0 \<and>
   reclassify (reclassify ksf_rows) = reclassify ksf_rows"
proof -
  have "0 < length (reclassify ksf_rows)"
    by (simp add: reclassify_map ksf_rows_fields)
  then show ?thesis
    using reclassify_idempotent [of "reclassify ksf_rows"] reclassify_idempotent [of ksf_rows]
      ksf_rows_reclassified(1)
    by auto
qed

subsection \<open>The left join\<close>

lemma matches_no_key:
  "k \<notin> fst ` set P \<Longrightarrow> filter (\<lambda>p. fst p = k) P = []"
  by (induction P) auto

text \<open>With one spectral row per key at most, the rows that match a key are what \<open>map_of\<close> finds.\<close>

lemma matches_unique:
  "distinct (map fst P) \<Longrightarrow>
   filter (\<lambda>p. fst p = k) P = (case map_of P k of None \<Rightarrow> [] | Some v \<Rightarrow> [(k, v)])"
proof (induction P)
  case Nil
  then show ?case by simp
next
  case (Cons p P)
  obtain a b where p: "p = (a, b)" by (cases p)
  show ?case
  proof (cases "a = k")
    case True
    with Cons.prems p have "k \<notin> fst ` set P" by simp
    then show ?thesis
      using True p by (simp add: matches_no_key)
  next
    case False
    with Cons p show ?thesis by simp
  qed
qed

lemma merge_row_unique:
  "distinct (map fst P) \<Longrightarrow>
   merge_row P s =
     [attach s (case map_of P (product_id s) of None \<Rightarrow> null_spd | Some v \<Rightarrow> v)]"
  by (simp add: merge_row_def matches_def matches_unique split: option.splits)

lemma merge_unique:
  "distinct (map fst P) \<Longrightarrow>
   merge S P =
     map (\<lambda>s. attach s (case map_of P (product_id s) of None \<Rightarrow> null_spd | Some v \<Rightarrow> v)) S"
  by (induction S) (simp_all add: merge_def merge_row_unique)

lemma merge_length:
  "length (merge S P) = sum_list (map (\<lambda>s. max 1 (length (matches s P))) S)"
proof (induction S)
  case Nil
  then show ?case by (simp add: merge_def)
next
  case (Cons s S)
  have "length (merge_row P s) = max 1 (length (matches s P))"
    by (cases "matches s P") (simp_all add: merge_row_def)
  with Cons show ?case
    by (simp add: merge_def)
qed

lemma merge_drop_unmatched:
  "merge S (filter (\<lambda>p. fst p \<in> product_id ` set S) P) = merge S P"
proof -
  have "merge_row (filter (\<lambda>p. fst p \<in> product_id ` set S) P) s = merge_row P s"
    if "s \<in> set S" for s
  proof -
    have "matches s (filter (\<lambda>p. fst p \<in> product_id ` set S) P) = matches s P"
      using that by (auto simp: matches_def intro: filter_cong)
    then show ?thesis
      by (simp add: merge_row_def)
  qed
  then show ?thesis
    by (simp add: merge_def cong: map_cong)
qed

text \<open>The rows one television contributes, by whether it has a partner.\<close>

lemma merge_row_cases:
  "merge_row P s =
     (if product_id s \<in> fst ` set P
      then map (\<lambda>p. attach s (snd p)) (filter (\<lambda>p. fst p = product_id s) P)
      else [attach s null_spd])"
proof (cases "product_id s \<in> fst ` set P")
  case True
  then have "filter (\<lambda>p. fst p = product_id s) P \<noteq> []"
    by (force simp: filter_empty_conv)
  with True show ?thesis
    by (simp add: merge_row_def matches_def split: list.splits)
next
  case False
  then show ?thesis
    by (simp add: merge_row_def matches_def matches_no_key)
qed

lemma attach_inj: "attach s v = attach s' v' \<Longrightarrow> s = s'"
  by (cases s; cases s') (simp add: attach_def tv_row.defs merged_row.defs)

text \<open>
  C9, as claimed: the merge produces exactly one output row per row of the television
  table. This fails when the spectral table has a key twice: the one television below
  comes out in two rows.
\<close>

theorem merge_not_one_row_per_tv:
  "length (merge [tv_hisense_u6] [(1, spd_ksf), (1, spd_woled)]) = 2 \<and>
   length [tv_hisense_u6] = 1"
  by (simp add: merge_def merge_row_def matches_def tv_hisense_u6_def)

text \<open>
  C9, amended. For each row of the television table \<open>S\<close>, in the order of \<open>S\<close>, the
  merge puts out one row for each row of the spectral table \<open>P\<close> with its
  \<^verbatim>\<open>product_id\<close>, in the order of \<open>P\<close> and with that row's spectral columns, and
  exactly one row with nulls in all spectral columns when \<open>P\<close> has no such row. So
  when no \<^verbatim>\<open>product_id\<close> occurs twice in \<open>P\<close>, there is exactly one output row per
  row of \<open>S\<close>, and a row that \<open>S\<close> contains \<open>k\<close> times has its merge \<open>k\<close> times in
  the result. The rows of \<open>P\<close> without a partner in \<open>S\<close> can be dropped beforehand
  with no effect.
\<close>

theorem merge_left_join:
  "merge S P =
     concat (map (\<lambda>s. if product_id s \<in> fst ` set P
                       then map (\<lambda>p. attach s (snd p)) (filter (\<lambda>p. fst p = product_id s) P)
                       else [attach s null_spd]) S) \<and>
   (distinct (map fst P) \<longrightarrow>
      merge S P =
        map (\<lambda>s. attach s (case map_of P (product_id s) of None \<Rightarrow> null_spd | Some v \<Rightarrow> v)) S \<and>
      length (merge S P) = length S \<and>
      (\<forall>i < length S. product_id (S ! i) \<notin> fst ` set P \<longrightarrow>
         merge S P ! i = attach (S ! i) null_spd) \<and>
      (\<forall>s. count_list (merge S P)
              (attach s (case map_of P (product_id s) of None \<Rightarrow> null_spd | Some v \<Rightarrow> v)) =
            count_list S s)) \<and>
   merge S (filter (\<lambda>p. fst p \<in> product_id ` set S) P) = merge S P \<and>
   length (merge S P) = sum_list (map (\<lambda>s. max 1 (length (matches s P))) S)"
proof -
  let ?f = "\<lambda>s. attach s (case map_of P (product_id s) of None \<Rightarrow> null_spd | Some v \<Rightarrow> v)"
  have general: "merge S P =
     concat (map (\<lambda>s. if product_id s \<in> fst ` set P
                       then map (\<lambda>p. attach s (snd p)) (filter (\<lambda>p. fst p = product_id s) P)
                       else [attach s null_spd]) S)"
  proof -
    have "merge_row P =
        (\<lambda>s. if product_id s \<in> fst ` set P
             then map (\<lambda>p. attach s (snd p)) (filter (\<lambda>p. fst p = product_id s) P)
             else [attach s null_spd])"
      by (rule ext) (rule merge_row_cases)
    then show ?thesis
      by (simp add: merge_def)
  qed
  have none: "map_of P k = None" if "k \<notin> fst ` set P" for k
    using that by (simp add: map_of_eq_None_iff)
  have "inj ?f"
    by (rule injI) (erule attach_inj)
  then have count: "count_list (map ?f S) (?f s) = count_list S s" for s
    by (rule count_list_map_conv)
  have unique: "distinct (map fst P) \<longrightarrow>
      merge S P = map ?f S \<and>
      length (merge S P) = length S \<and>
      (\<forall>i < length S. product_id (S ! i) \<notin> fst ` set P \<longrightarrow>
         merge S P ! i = attach (S ! i) null_spd) \<and>
      (\<forall>s. count_list (merge S P) (?f s) = count_list S s)"
    using count by (auto simp: merge_unique none)
  from general unique merge_length [of S P] merge_drop_unmatched [of S P]
  show ?thesis by blast
qed

theorem merge_left_join_witness:
  "distinct (map fst (example_spd @ [(9, spd_woled)])) \<and>
   merge (example_tv @ [tv_roku, tv_roku]) (example_spd @ [(9, spd_woled)]) =
     [attach tv_hisense_u6 spd_ksf, attach tv_sony_a95l spd_qd_oled,
      attach tv_roku null_spd, attach tv_roku null_spd] \<and>
   merge [tv_hisense_u6, tv_roku] [(1, spd_ksf), (1, spd_woled)] =
     [attach tv_hisense_u6 spd_ksf, attach tv_hisense_u6 spd_woled, attach tv_roku null_spd]"
  using merge_left_join [of "example_tv @ [tv_roku, tv_roku]" "example_spd @ [(9, spd_woled)]"]
    merge_left_join [of "[tv_hisense_u6, tv_roku]" "[(1, spd_ksf), (1, spd_woled)]"]
  by (simp add: example_spd_def example_tv_def tv_hisense_u6_def tv_sony_a95l_def tv_roku_def)

subsection \<open>Parsing the dimming zone count\<close>

text \<open>
  C10, as claimed: parsing \<^verbatim>\<open>dimming_zone_count\<close> never raises, and the value is
  parsed as a non-negative integer. Both fail: the number 3.5 survives
  \<^verbatim>\<open>pd.to_numeric\<close> and the cast to \<^verbatim>\<open>Int64\<close> raises on it, which ends the whole run;
  and \<open>-5\<close> is parsed as \<open>-5\<close>.
\<close>

theorem parse_dimming_zone_count_raises:
  "parse_dimming_zone_count no_numerals (Flt (Fin (7 / 2))) = Inl TypeError \<and>
   build_schema no_numerals no_numerals
     [tv_hisense_u6\<lparr>dimming_zone_count := Flt (Fin (7 / 2))\<rparr>] [] = Inl TypeError \<and>
   parse_dimming_zone_count no_numerals (Flt (Fin (- 5))) = Inr (Some (- 5))"
proof -
  have 1: "parse_dimming_zone_count no_numerals (Flt (Fin (7 / 2))) = Inl TypeError"
    by (simp add: parse_dimming_zone_count_def to_numeric_coerce_def astype_Int64_def)
  have 2: "merge [tv_hisense_u6\<lparr>dimming_zone_count := Flt (Fin (7 / 2))\<rparr>] [] =
     [attach (tv_hisense_u6\<lparr>dimming_zone_count := Flt (Fin (7 / 2))\<rparr>) null_spd]"
    by (simp add: merge_def merge_row_def matches_def)
  have 3: "parse_dimming_zone_count no_numerals (Flt (Fin (- 5))) = Inr (Some (- 5))"
    by (simp add: parse_dimming_zone_count_def to_numeric_coerce_def astype_Int64_def)
  show ?thesis
    by (simp add: 1 2 3 build_schema_def)
qed

text \<open>
  C10, amended. Parsing \<^verbatim>\<open>dimming_zone_count\<close> does not raise and yields null for a
  missing raw value and for a string that is no number; it does not raise and yields the
  integer \<open>n\<close>, of either sign, for a raw value that is numeric with the value of an
  integer \<open>n\<close> in the signed 64-bit range; and it yields no integer other than the
  numeric value of the raw cell.
\<close>

theorem parse_dimming_zone_count_cases:
  "(isna c \<longrightarrow> parse_dimming_zone_count pn c = Inr None) \<and>
   (c = Str s \<and> pn s = None \<longrightarrow> parse_dimming_zone_count pn c = Inr None) \<and>
   (to_numeric_coerce pn c = Fin (of_int n) \<and> - (2 ^ 63) \<le> n \<and> n < 2 ^ 63 \<longrightarrow>
      parse_dimming_zone_count pn c = Inr (Some n)) \<and>
   (parse_dimming_zone_count pn c = Inr (Some n) \<longrightarrow>
      to_numeric_coerce pn c = Fin (of_int n))"
  by (auto simp: parse_dimming_zone_count_def to_numeric_coerce_def astype_Int64_def isna_def
      split: pyfloat.splits if_splits)

theorem parse_dimming_zone_count_cases_witness:
  "parse_dimming_zone_count no_numerals NaN = Inr None \<and>
   parse_dimming_zone_count no_numerals (Str ''n/a'') = Inr None \<and>
   parse_dimming_zone_count no_numerals (Flt (Fin 160)) = Inr (Some 160)"
  using parse_dimming_zone_count_cases [of NaN no_numerals "''n/a''" 0]
    parse_dimming_zone_count_cases [of "Str ''n/a''" no_numerals "''n/a''" 0]
    parse_dimming_zone_count_cases [of "Flt (Fin 160)" no_numerals "''n/a''" 160]
  by (simp add: isna_def no_numerals_def to_numeric_coerce_def)

end
